theory Spec2Isabelle
  imports Main "HOL-Library.AList"
begin

section \<open>JavaScript values and string helpers used by \<open>src/index.ts\<close>\<close>

text \<open>
  Strings are lists of 8-bit characters, read as the code points U+0000 to U+00FF. Every
  literal of the program is in that range; answers with other characters are outside the
  model.

  \<open>json\<close> is the value domain of the two objects the program builds with dynamic
  property assignment (\<open>manifest: any\<close> and \<open>pkg: any\<close>). An object keeps its
  properties in insertion order. An array carries its elements and, separately, the named
  (non-index) properties that JavaScript allows to be assigned on it; a value coming out
  of \<open>JSON.parse\<close> has none of those. \<open>JNum n\<close> is the number with the integer
  value \<open>n\<close>, for the integers a double holds exactly (magnitude at most \<open>2^53\<close>); the
  only number the program produces is the manifest version. A parsed number that is not
  such an integer has no counterpart here.
\<close>

datatype json =
    JNull
  | JBool bool
  | JNum int
  | JStr string
  | JArr "json list" "(string \<times> json) list"
  | JObj "(string \<times> json) list"

type_synonym obj = "(string \<times> json) list"

datatype error =
    MissingField string   \<comment> \<open>a required answer is not of the expected type; carries the message\<close>
  | EmptySet              \<comment> \<open>\<open>'At least one permission is required.'\<close>\<close>
  | DirectoryExists       \<comment> \<open>\<open>Directory "..." already exists!\<close>\<close>
  | TypeError             \<comment> \<open>thrown by a property access the value does not allow\<close>
  | SyntaxError           \<comment> \<open>thrown by \<open>JSON.parse\<close>\<close>
  | FsError               \<comment> \<open>thrown by \<open>fs.mkdirSync\<close>\<close>

definition bindE :: "'e + 'a \<Rightarrow> ('a \<Rightarrow> 'e + 'b) \<Rightarrow> 'e + 'b" where
  "bindE x f = (case x of Inl e \<Rightarrow> Inl e | Inr a \<Rightarrow> f a)"

text \<open>ECMAScript white space and line terminators below U+0100.\<close>

definition isSpace :: "char \<Rightarrow> bool" where
  "isSpace c \<longleftrightarrow> c \<in> {CHR 0x09, CHR 0x0A, CHR 0x0B, CHR 0x0C, CHR 0x0D, CHR 0x20, CHR 0xA0}"

text \<open>\<open>String.prototype.trim\<close>.\<close>

definition trim :: "string \<Rightarrow> string" where
  "trim s = rev (dropWhile isSpace (rev (dropWhile isSpace s)))"

text \<open>\<open>String.prototype.toLowerCase\<close> on code points below U+0100.\<close>

definition lowerChar :: "char \<Rightarrow> char" where
  "lowerChar c =
     (let n = of_char c :: nat
      in if (0x41 \<le> n \<and> n \<le> 0x5A) \<or> (0xC0 \<le> n \<and> n \<le> 0xDE \<and> n \<noteq> 0xD7)
         then char_of (n + 0x20) else c)"

definition toLowerCase :: "string \<Rightarrow> string" where
  "toLowerCase s = map lowerChar s"

text \<open>\<open>s.replace(/\s+/g, '-')\<close>: every maximal run of white space becomes one hyphen.\<close>

fun spaceRuns :: "bool \<Rightarrow> string \<Rightarrow> string" where
  "spaceRuns inRun [] = []"
| "spaceRuns inRun (c # cs) =
     (if isSpace c then (if inRun then spaceRuns True cs else CHR ''-'' # spaceRuns True cs)
      else c # spaceRuns False cs)"

definition replaceSpaceRuns :: "string \<Rightarrow> string" where
  "replaceSpaceRuns s = spaceRuns False s"

text \<open>
  \<open>s.replace(pat, rep)\<close> with a string pattern: the first occurrence only. The
  replacement strings of the program contain no \<open>$\<close> pattern.
\<close>

fun replaceFirst :: "string \<Rightarrow> string \<Rightarrow> string \<Rightarrow> string" where
  "replaceFirst pat rep [] = (if pat = [] then rep else [])"
| "replaceFirst pat rep (c # cs) =
     (if take (length pat) (c # cs) = pat then rep @ drop (length pat) (c # cs)
      else c # replaceFirst pat rep cs)"

text \<open>\<open>lines.join('\n')\<close>.\<close>

fun joinLines :: "string list \<Rightarrow> string" where
  "joinLines [] = []"
| "joinLines [l] = l"
| "joinLines (l # ls) = l @ ''\<newline>'' @ joinLines ls"

text \<open>Truthiness of a value.\<close>

fun truthy :: "json \<Rightarrow> bool" where
  "truthy JNull = False"
| "truthy (JBool b) = b"
| "truthy (JNum n) = (n \<noteq> 0)"
| "truthy (JStr s) = (s \<noteq> [])"
| "truthy (JArr xs ps) = True"
| "truthy (JObj fs) = True"

text \<open>\<open>x || d\<close>, where \<open>None\<close> is \<open>undefined\<close>.\<close>

fun orElse :: "json option \<Rightarrow> json \<Rightarrow> json" where
  "orElse None d = d"
| "orElse (Some v) d = (if truthy v then v else d)"

text \<open>
  \<open>x[k]\<close> and \<open>x[k] = v\<close> (strict mode, as a TypeScript module is compiled) for the
  property names of the program, none of which is an array index, \<open>length\<close> or a
  property inherited from a prototype. Reading a property of \<open>null\<close> throws; assigning
  one on a primitive throws.
\<close>

fun getProp :: "json \<Rightarrow> string \<Rightarrow> error + json option" where
  "getProp JNull k = Inl TypeError"
| "getProp (JObj fs) k = Inr (map_of fs k)"
| "getProp (JArr xs ps) k = Inr (map_of ps k)"
| "getProp (JBool b) k = Inr None"
| "getProp (JNum n) k = Inr None"
| "getProp (JStr s) k = Inr None"

fun setProp :: "json \<Rightarrow> string \<Rightarrow> json \<Rightarrow> error + json" where
  "setProp (JObj fs) k v = Inr (JObj (AList.update k v fs))"
| "setProp (JArr xs ps) k v = Inr (JArr xs (AList.update k v ps))"
| "setProp JNull k v = Inl TypeError"
| "setProp (JBool b) k v = Inl TypeError"
| "setProp (JNum n) k v = Inl TypeError"
| "setProp (JStr s) k v = Inl TypeError"

text \<open>\<open>x[k] = x[k] || d\<close>.\<close>

definition defaultProp :: "json \<Rightarrow> string \<Rightarrow> json \<Rightarrow> error + json" where
  "defaultProp x k d = bindE (getProp x k) (\<lambda>cur. setProp x k (orElse cur d))"

text \<open>
  \<open>x[k1][k2] = f(x[k1][k2])\<close>, for a property \<open>k1\<close> that holds a value of its own
  (no other reference to it exists): the update is written back under \<open>k1\<close>. Reading
  a property of \<open>undefined\<close> throws.
\<close>

definition updateNested ::
  "json \<Rightarrow> string \<Rightarrow> (json \<Rightarrow> error + json) \<Rightarrow> error + json" where
  "updateNested x k1 f =
     bindE (getProp x k1) (\<lambda>inner.
       case inner of
         None \<Rightarrow> Inl TypeError
       | Some y \<Rightarrow> bindE (f y) (\<lambda>y'. setProp x k1 y'))"

text \<open>\<open>if (!x[k]) x[k] = d\<close>.\<close>

definition setIfFalsy :: "json \<Rightarrow> string \<Rightarrow> json \<Rightarrow> error + json" where
  "setIfFalsy x k d =
     bindE (getProp x k) (\<lambda>cur.
       if \<not> (case cur of None \<Rightarrow> False | Some v \<Rightarrow> truthy v) then setProp x k d else Inr x)"

text \<open>The names of all properties in a value as \<open>JSON.stringify\<close> prints it.\<close>

primrec keysOf :: "json \<Rightarrow> string list" where
  "keysOf JNull = []"
| "keysOf (JBool b) = []"
| "keysOf (JNum n) = []"
| "keysOf (JStr s) = []"
| "keysOf (JArr xs ps) = concat (map keysOf xs)"
| "keysOf (JObj fs) = concat (map (\<lambda>p. fst p # snd p) (map (map_prod id keysOf) fs))"

section \<open>The prompts and the normalised options (lines 18 to 176)\<close>

text \<open>
  Each prompt returns its value or the cancel symbol, which is \<open>None\<close> here. The
  record holds the answer every prompt would give; a prompt the program does not reach
  is not read.
\<close>

record raw_options =
  extNameRaw :: "string option"
  extDescRaw :: "string option"
  versionRaw :: "int option"
  permissionsRaw :: "string list option"
  addIconsResp :: "bool option"
  icon16Raw :: "string option"
  icon48Raw :: "string option"
  icon128Raw :: "string option"
  additionalFeaturesRaw :: "string list option"
  popupLangRaw :: "string option"
  backgroundLangRaw :: "string option"
  contentLangRaw :: "string option"
  useSrcFolderRaw :: "bool option"
  buildOptionsRaw :: "string list option"
  proceedRaw :: "bool option"

record options =
  extensionName :: string
  extensionDescription :: string
  manifestVersion :: int
  permissions :: "string list"
  icons :: obj
  additionalFeatures :: "string list"
  popupLang :: string
  backgroundLang :: string
  contentLang :: string
  useSrcFolder :: bool
  buildOptions :: "string list"

text \<open>The truth value of a \<open>confirm\<close> answer: the cancel symbol is truthy.\<close>

fun confirmed :: "bool option \<Rightarrow> bool" where
  "confirmed None = True"
| "confirmed (Some b) = b"

text \<open>\<open>Array.isArray(x) ? x : []\<close>.\<close>

fun arrayOrEmpty :: "string list option \<Rightarrow> string list" where
  "arrayOrEmpty None = []"
| "arrayOrEmpty (Some xs) = xs"

text \<open>\<open>typeof x === 'string' ? x.trim() : ''\<close>, then \<open>if (icon) icons[key] = icon\<close>.\<close>

definition addIcon :: "string \<Rightarrow> string option \<Rightarrow> obj \<Rightarrow> obj" where
  "addIcon key raw ics =
     (let icon = (case raw of Some s \<Rightarrow> trim s | None \<Rightarrow> [])
      in if icon \<noteq> [] then AList.update key (JStr icon) ics else ics)"

definition readIcons :: "raw_options \<Rightarrow> obj" where
  "readIcons r =
     (if confirmed (addIconsResp r)
      then addIcon ''128'' (icon128Raw r) (addIcon ''48'' (icon48Raw r) (addIcon ''16'' (icon16Raw r) []))
      else [])"

text \<open>A language \<open>select\<close>, asked only when its feature is selected.\<close>

definition readLang :: "string \<Rightarrow> string list \<Rightarrow> string option \<Rightarrow> string \<Rightarrow> string" where
  "readLang feature features raw dflt =
     (if feature \<in> set features then (case raw of Some l \<Rightarrow> l | None \<Rightarrow> dflt) else dflt)"

text \<open>\<open>if (buildOptions.includes('none')) buildOptions.length = 0\<close>.\<close>

definition readBuildOptions :: "string list option \<Rightarrow> string list" where
  "readBuildOptions raw =
     (let bs = arrayOrEmpty raw in if ''none'' \<in> set bs then [] else bs)"

text \<open>
  The answers are checked in the order the program asks for them; the first failing check
  ends the run (\<open>process.exit(1)\<close>). Nothing tests a trimmed answer for emptiness.
\<close>

definition normalizeOptions :: "raw_options \<Rightarrow> error + options" where
  "normalizeOptions r =
     (case extNameRaw r of
        None \<Rightarrow> Inl (MissingField ''No extension name provided.'')
      | Some nameStr \<Rightarrow>
     (case extDescRaw r of
        None \<Rightarrow> Inl (MissingField ''No description provided.'')
      | Some descStr \<Rightarrow>
     (case versionRaw r of
        None \<Rightarrow> Inl (MissingField ''No manifest version selected.'')
      | Some version \<Rightarrow>
     (let perms = arrayOrEmpty (permissionsRaw r);
          features = arrayOrEmpty (additionalFeaturesRaw r)
      in if length perms = 0 then Inl EmptySet
         else Inr \<lparr> extensionName = trim nameStr,
                    extensionDescription = trim descStr,
                    manifestVersion = version,
                    permissions = perms,
                    icons = readIcons r,
                    additionalFeatures = features,
                    popupLang = readLang ''popup'' features (popupLangRaw r) ''html'',
                    backgroundLang = readLang ''background'' features (backgroundLangRaw r) ''js'',
                    contentLang = readLang ''content'' features (contentLangRaw r) ''js'',
                    useSrcFolder = confirmed (useSrcFolderRaw r),
                    buildOptions = readBuildOptions (buildOptionsRaw r) \<rparr>))))"

section \<open>Manifest and file synthesis (lines 198 to 369)\<close>

text \<open>
  Paths are relative to the extension directory \<open>extDir\<close>. A file's content is text,
  or \<open>JsonText v\<close> for \<open>JSON.stringify(v, null, 2)\<close>, which prints the elements of
  an array and none of its named properties.
\<close>

datatype content = Text string | JsonText json

record file_artifact =
  relativePath :: string
  content :: content

record project =
  manifest :: obj
  files :: "file_artifact list"

text \<open>\<open>path.join(extDir, useSrcFolder ? 'src' : '', filename)\<close>.\<close>

definition filePath :: "options \<Rightarrow> string \<Rightarrow> string" where
  "filePath opts filename = (if useSrcFolder opts then ''src/'' @ filename else filename)"

text \<open>\<open>fs.writeFileSync(path, data)\<close>: the writes are kept in the order they happen.\<close>

definition writeFile :: "string \<Rightarrow> content \<Rightarrow> project \<Rightarrow> project" where
  "writeFile p c st = st\<lparr>files := files st @ [\<lparr>relativePath = p, content = c\<rparr>]\<rparr>"

text \<open>\<open>m[k] = m[k] || d\<close> on an object.\<close>

definition objDefault :: "obj \<Rightarrow> string \<Rightarrow> json \<Rightarrow> obj" where
  "objDefault m k d = AList.update k (orElse (map_of m k) d) m"

text \<open>\<open>m[k1][k2] = v\<close> on an object \<open>m\<close>.\<close>

definition objSetNested :: "obj \<Rightarrow> string \<Rightarrow> string \<Rightarrow> json \<Rightarrow> error + obj" where
  "objSetNested m k1 k2 v =
     (case map_of m k1 of
        None \<Rightarrow> Inl TypeError
      | Some y \<Rightarrow> bindE (setProp y k2 v) (\<lambda>y'. Inr (AList.update k1 y' m)))"

text \<open>\<open>xs.includes(x)\<close>.\<close>

definition includesElem :: "string list \<Rightarrow> string \<Rightarrow> bool" where
  "includesElem xs x \<longleftrightarrow> x \<in> set xs"

definition initialProject :: "options \<Rightarrow> project" where
  "initialProject opts =
     \<lparr> manifest =
         [ (''manifest_version'', JNum (manifestVersion opts)),
           (''name'', JStr (extensionName opts)),
           (''version'', JStr ''1.0.0''),
           (''description'', JStr (extensionDescription opts)),
           (''permissions'', JArr (map JStr (permissions opts)) []) ],
       files = [] \<rparr>"

definition iconsStep :: "options \<Rightarrow> project \<Rightarrow> project" where
  "iconsStep opts st =
     (if length (icons opts) > 0
      then st\<lparr>manifest := AList.update ''icons'' (JObj (icons opts)) (manifest st)\<rparr>
      else st)"

definition bgFileName :: "options \<Rightarrow> string" where
  "bgFileName opts = (if backgroundLang opts = ''ts'' then ''background.ts'' else ''background.js'')"

definition backgroundSource :: "options \<Rightarrow> string" where
  \<open>backgroundSource opts =
     ''// '' @ (if backgroundLang opts = ''ts'' then ''TypeScript'' else ''JavaScript'')
     @ '' background script\<newline>console.log('Background script running');\<newline>''\<close>

definition backgroundStep :: "options \<Rightarrow> project \<Rightarrow> project" where
  "backgroundStep opts st =
     (if includesElem (additionalFeatures opts) ''background''
      then
        writeFile (filePath opts (bgFileName opts)) (Text (backgroundSource opts))
          (st\<lparr>manifest :=
              AList.update ''background''
                (if manifestVersion opts = 3
                 then JObj ((''service_worker'', JStr ''background.js'')
                            # (if includesElem (buildOptions opts) ''esmodules''
                               then [(''type'', JStr ''module'')] else []))
                 else JObj [(''scripts'', JArr [JStr ''background.js''] []),
                            (''persistent'', JBool False)])
                (manifest st)\<rparr>)
      else st)"

definition contentFileName :: "options \<Rightarrow> string" where
  "contentFileName opts = (if contentLang opts = ''ts'' then ''content.ts'' else ''content.js'')"

definition contentSource :: "options \<Rightarrow> string" where
  \<open>contentSource opts =
     ''// '' @ (if contentLang opts = ''ts'' then ''TypeScript'' else ''JavaScript'')
     @ '' content script\<newline>console.log('Content script injected');\<newline>''\<close>

definition contentStep :: "options \<Rightarrow> project \<Rightarrow> project" where
  "contentStep opts st =
     (if includesElem (additionalFeatures opts) ''content''
      then
        writeFile (filePath opts (contentFileName opts)) (Text (contentSource opts))
          (st\<lparr>manifest :=
              AList.update ''content_scripts''
                (JArr [JObj [(''matches'', JArr [JStr ''<all_urls>''] []),
                             (''js'', JArr [JStr ''content.js''] [])]] [])
                (manifest st)\<rparr>)
      else st)"

definition jqueryCdnTag :: string where
  \<open>jqueryCdnTag =
     ''  <script src="https://code.jquery.com/jquery-3.6.0.min.js"></script>\<newline></head>''\<close>

definition injectJquery :: "options \<Rightarrow> string \<Rightarrow> string" where
  "injectJquery opts html =
     (if includesElem (buildOptions opts) ''jquery-cdn''
      then replaceFirst ''</head>'' jqueryCdnTag html else html)"

text \<open>
  The HTML templates of the options page, the devtools page and the three popups are the
  same page with a title and different body lines.
\<close>

definition htmlPage :: "string \<Rightarrow> string list \<Rightarrow> string" where
  \<open>htmlPage title body =
     concat (map (\<lambda>l. l @ ''\<newline>'')
       ([''<!DOCTYPE html>'', ''<html>'', ''<head>'', ''  <meta charset="utf-8">'',
         ''  <title>'' @ title @ ''</title>'', ''</head>'', ''<body>'']
        @ body @ [''</body>'', ''</html>'']))\<close>

definition optionsHTML :: string where
  "optionsHTML = htmlPage ''Options'' [''  <h1>Extension Options</h1>'']"

definition optionsStep :: "options \<Rightarrow> project \<Rightarrow> project" where
  "optionsStep opts st =
     (if includesElem (additionalFeatures opts) ''options''
      then
        (let st1 = writeFile (filePath opts ''options.html'') (Text (injectJquery opts optionsHTML)) st
         in if manifestVersion opts = 3
            then st1\<lparr>manifest :=
                   AList.update ''options_ui''
                     (JObj [(''page'', JStr ''options.html''), (''open_in_tab'', JBool True)])
                     (manifest st1)\<rparr>
            else st1\<lparr>manifest :=
                   AList.update ''options_page'' (JStr ''options.html'') (manifest st1)\<rparr>)
      else st)"

definition devtoolsHTML :: string where
  "devtoolsHTML = htmlPage ''DevTools'' [''  <h1>DevTools Page</h1>'']"

definition devtoolsStep :: "options \<Rightarrow> project \<Rightarrow> project" where
  "devtoolsStep opts st =
     (if includesElem (additionalFeatures opts) ''devtools'' \<and> manifestVersion opts = 2
      then
        (let st1 = writeFile (filePath opts ''devtools.html'') (Text (injectJquery opts devtoolsHTML)) st
         in st1\<lparr>manifest :=
                AList.update ''devtools_page'' (JStr ''devtools.html'') (manifest st1)\<rparr>)
      else st)"

definition popupScriptTag :: "options \<Rightarrow> string" where
  \<open>popupScriptTag opts =
     ''  <script src="popup.js"''
     @ (if includesElem (buildOptions opts) ''esmodules'' then '' type="module"'' else [])
     @ ''></script>''\<close>

definition popupHTMLContent :: "options \<Rightarrow> string" where
  "popupHTMLContent opts =
     (if popupLang opts = ''html''
      then htmlPage ''Popup'' [''  <h1>Hello from Popup</h1>'', popupScriptTag opts]
      else if popupLang opts = ''ts''
      then htmlPage ''Popup''
             [''  <h1>Popup (TypeScript)</h1>'', ''  <!-- Compile popup.ts to popup.js -->'',
              popupScriptTag opts]
      else if popupLang opts = ''react''
      then htmlPage ''Popup''
             [''  <div id=\"root\"></div>'', ''  <!-- Bundle popup.tsx to popup.js -->'',
              popupScriptTag opts]
      else [])"

definition popupReactSource :: string where
  \<open>popupReactSource =
     concat (map (\<lambda>l. l @ ''\<newline>'')
       [''import React from 'react';'',
        ''import ReactDOM from 'react-dom';'',
        [],
        ''const App = () => {'',
        ''  return <h1>Hello from React Popup!</h1>;'',
        ''};'',
        [],
        ''ReactDOM.render(<App />, document.getElementById('root'));''])\<close>

definition popupSourceStep :: "options \<Rightarrow> project \<Rightarrow> project" where
  \<open>popupSourceStep opts st =
     (if popupLang opts = ''html''
      then writeFile (filePath opts ''popup.js'') (Text ''console.log('Popup JS loaded');\<newline>'') st
      else if popupLang opts = ''ts''
      then writeFile (filePath opts ''popup.ts'')
             (Text ''console.log('Popup TypeScript loaded');\<newline>'') st
      else if popupLang opts = ''react''
      then writeFile (filePath opts ''popup.tsx'') (Text popupReactSource) st
      else st)\<close>

text \<open>
  The popup block is the one place where the manifest is written through a nested
  property, which throws when the outer property does not hold an object; it does so
  before the block writes any file.
\<close>

definition popupStep :: "options \<Rightarrow> project \<Rightarrow> error + project" where
  "popupStep opts st =
     (if includesElem (additionalFeatures opts) ''popup''
      then
        bindE (if manifestVersion opts = 3
               then objSetNested (objDefault (manifest st) ''action'' (JObj []))
                      ''action'' ''default_popup'' (JStr ''popup.html'')
               else objSetNested (objDefault (manifest st) ''browser_action'' (JObj []))
                      ''browser_action'' ''default_popup'' (JStr ''popup.html'')) (\<lambda>m.
          Inr (writeFile (filePath opts ''popup.html'')
                 (Text (injectJquery opts (popupHTMLContent opts)))
                 (popupSourceStep opts (st\<lparr>manifest := m\<rparr>))))
      else
        Inr (st\<lparr>manifest :=
               (if manifestVersion opts = 3
                then objDefault (manifest st) ''action'' (JObj [])
                else objDefault (manifest st) ''browser_action'' (JObj []))\<rparr>))"

text \<open>The project when the popup block is reached.\<close>

definition beforePopup :: "options \<Rightarrow> project" where
  "beforePopup opts =
     devtoolsStep opts (optionsStep opts (contentStep opts (backgroundStep opts
       (iconsStep opts (initialProject opts)))))"

text \<open>\<open>fs.writeFileSync(path.join(extDir, 'manifest.json'), JSON.stringify(manifest, null, 2))\<close>.\<close>

definition writeManifest :: "project \<Rightarrow> project" where
  "writeManifest st = writeFile ''manifest.json'' (JsonText (JObj (manifest st))) st"

text \<open>
  Lines 203 to 369: the manifest descriptor and the file plan (the feature files in the
  order they are written, then \<open>manifest.json\<close>).
\<close>

definition synthesize :: "options \<Rightarrow> error + project" where
  "synthesize opts = bindE (popupStep opts (beforePopup opts)) (\<lambda>st. Inr (writeManifest st))"

section \<open>The package descriptor (lines 372 to 406)\<close>

text \<open>What lines 375 and 376 find at \<open>package.json\<close>: no file, a text that does not parse, or a value.\<close>

datatype pkg_file = NoFile | Unparsable | Parsed json

definition usesTypeScript :: "options \<Rightarrow> bool" where
  "usesTypeScript opts \<longleftrightarrow>
     backgroundLang opts = ''ts'' \<or> contentLang opts = ''ts''
     \<or> popupLang opts = ''ts'' \<or> popupLang opts = ''react''"

text \<open>\<open>pkg.devDependencies[k] = pkg.devDependencies[k] || d\<close>, and the same for \<open>dependencies\<close>.\<close>

definition defaultDep :: "string \<Rightarrow> string \<Rightarrow> string \<Rightarrow> json \<Rightarrow> error + json" where
  "defaultDep section k d pkg = updateNested pkg section (\<lambda>deps. defaultProp deps k (JStr d))"

text \<open>
  \<open>if ((...) && !pkg.devDependencies.typescript) pkg.devDependencies.typescript = '^4.9.5'\<close>.
\<close>

definition typescriptDep :: "options \<Rightarrow> json \<Rightarrow> error + json" where
  "typescriptDep opts pkg =
     (if usesTypeScript opts
      then updateNested pkg ''devDependencies'' (\<lambda>deps. setIfFalsy deps ''typescript'' (JStr ''^4.9.5''))
      else Inr pkg)"

definition webpackStep :: "options \<Rightarrow> json \<Rightarrow> error + json" where
  "webpackStep opts pkg =
     (if includesElem (buildOptions opts) ''bundler-webpack''
      then bindE (defaultDep ''devDependencies'' ''webpack'' ''^5.0.0'' pkg) (\<lambda>pkg.
           bindE (defaultDep ''devDependencies'' ''webpack-cli'' ''^4.0.0'' pkg) (\<lambda>pkg.
           typescriptDep opts pkg))
      else Inr pkg)"

definition rollupStep :: "options \<Rightarrow> json \<Rightarrow> error + json" where
  "rollupStep opts pkg =
     (if includesElem (buildOptions opts) ''bundler-rollup''
      then bindE (defaultDep ''devDependencies'' ''rollup'' ''^2.0.0'' pkg) (\<lambda>pkg.
           bindE (defaultDep ''devDependencies'' ''rollup-plugin-typescript2'' ''^0.34.1'' pkg) (\<lambda>pkg.
           typescriptDep opts pkg))
      else Inr pkg)"

definition jqueryStep :: "options \<Rightarrow> json \<Rightarrow> error + json" where
  "jqueryStep opts pkg =
     (if includesElem (buildOptions opts) ''jquery-npm''
      then bindE (defaultDep ''dependencies'' ''jquery'' ''^3.6.0'' pkg) (\<lambda>pkg.
           if usesTypeScript opts
           then defaultDep ''devDependencies'' ''@types/jquery'' ''^3.5.14'' pkg
           else Inr pkg)
      else Inr pkg)"

text \<open>Lines 378 to 404: the merge into the descriptor \<open>pkg\<close>.\<close>

definition mergePackage :: "options \<Rightarrow> json \<Rightarrow> error + json" where
  "mergePackage opts pkg =
     bindE (defaultProp pkg ''name'' (JStr (replaceSpaceRuns (toLowerCase (extensionName opts))))) (\<lambda>pkg.
     bindE (defaultProp pkg ''version'' (JStr ''1.0.0'')) (\<lambda>pkg.
     bindE (defaultProp pkg ''scripts'' (JObj [])) (\<lambda>pkg.
     bindE (updateNested pkg ''scripts'' (\<lambda>scripts. defaultProp scripts ''build'' (JStr ''tsc''))) (\<lambda>pkg.
     bindE (defaultProp pkg ''devDependencies'' (JObj [])) (\<lambda>pkg.
     bindE (defaultProp pkg ''dependencies'' (JObj [])) (\<lambda>pkg.
     bindE (webpackStep opts pkg) (\<lambda>pkg.
     bindE (rollupStep opts pkg) (\<lambda>pkg.
     jqueryStep opts pkg))))))))"

text \<open>
  Lines 372 to 406: \<open>None\<close> when no package descriptor is written, otherwise the
  descriptor that \<open>package.json\<close> receives.
\<close>

definition resolvePackage :: "options \<Rightarrow> pkg_file \<Rightarrow> error + json option" where
  "resolvePackage opts existing =
     (if length (buildOptions opts) > 0
      then bindE (case existing of
                    NoFile \<Rightarrow> Inr (JObj [])
                  | Unparsable \<Rightarrow> Inl SyntaxError
                  | Parsed j \<Rightarrow> Inr j) (\<lambda>pkg.
           bindE (mergePackage opts pkg) (\<lambda>pkg. Inr (Some pkg)))
      else Inr None)"

section \<open>The next steps (lines 408 to 444)\<close>

definition todoLines :: "options \<Rightarrow> string list" where
  \<open>todoLines opts =
     [''# TODO'', [], ''## Next Steps'']
     @ (if includesElem (additionalFeatures opts) ''background''
        then [''- Edit your background script ('' @ bgFileName opts @ '').''] else [])
     @ (if includesElem (additionalFeatures opts) ''content''
        then [''- Edit your content script ('' @ contentFileName opts @ '').''] else [])
     @ (if includesElem (additionalFeatures opts) ''popup''
        then (if popupLang opts = ''html''
              then [''- Edit your popup HTML and JS files (popup.html and popup.js).'']
              else if popupLang opts = ''ts''
              then [''- Edit your popup files (popup.html and popup.ts) and compile to popup.js.'']
              else if popupLang opts = ''react''
              then [''- Edit your popup files (popup.html and popup.tsx) and bundle to popup.js.'']
              else [])
        else [])
     @ (if includesElem (additionalFeatures opts) ''options''
        then [''- Edit your options page (options.html).''] else [])
     @ (if includesElem (additionalFeatures opts) ''devtools'' \<and> manifestVersion opts = 2
        then [''- Edit your DevTools page (devtools.html).''] else [])
     @ (if length (buildOptions opts) > 0
        then [''- Run `npm install` in your extension directory to install build dependencies.'',
              ''- Build your extension (for example, run `npm run build`) after editing your TypeScript or bundler configuration.'']
        else [''- No build dependencies configured. Set up your build process manually if needed.''])
     @ [[], ''---'',
        ''Remember: Chrome extensions require JavaScript at runtime. If you write code in TypeScript or use ES modules, make sure to compile or bundle your code appropriately.'']\<close>

section \<open>The program (\<open>main\<close>)\<close>

text \<open>
  The file system as the program meets it. A location is a place relative to the working
  directory: the number of levels above it, then the names below. \<open>joinCwd name\<close> is
  \<open>path.join(process.cwd(), name)\<close> on a POSIX system: empty and \<open>.\<close> segments are
  dropped and \<open>..\<close> goes one level up.
\<close>

datatype node = Missing | Dir | File

type_synonym location = "nat \<times> string list"

fun splitPath :: "string \<Rightarrow> string list" where
  "splitPath [] = [[]]"
| "splitPath (c # cs) =
     (if c = CHR ''/'' then [] # splitPath cs
      else (case splitPath cs of [] \<Rightarrow> [[c]] | seg # segs \<Rightarrow> (c # seg) # segs))"

definition stepInto :: "location \<Rightarrow> string \<Rightarrow> location" where
  "stepInto loc seg =
     (if seg = [] \<or> seg = ''.'' then loc
      else if seg = ''..''
      then (if snd loc = [] then (Suc (fst loc), []) else (fst loc, butlast (snd loc)))
      else (fst loc, snd loc @ [seg]))"

definition joinCwd :: "string \<Rightarrow> location" where
  "joinCwd name = foldl stepInto (0, []) (splitPath name)"

text \<open>
  What the run finds: the node at each location when the program starts, and the result of
  \<open>JSON.parse\<close> on a text (\<open>None\<close> when it throws). The working directory and the
  directories above it exist.
\<close>

record env =
  nodes :: "location \<Rightarrow> node"
  jsonParse :: "string \<Rightarrow> json option"

definition nodeAt :: "env \<Rightarrow> location \<Rightarrow> node" where
  "nodeAt e loc = (if snd loc = [] then Dir else nodes e loc)"

text \<open>
  Lines 375 and 376. \<open>extDir\<close> was created empty at line 191, so it holds the files the
  run has written and no other: \<open>package.json\<close> exists when one of them has that path,
  and the latest write gives its text.
\<close>

definition readPackageFile :: "env \<Rightarrow> file_artifact list \<Rightarrow> pkg_file" where
  "readPackageFile e fs =
     (case List.find (\<lambda>a. relativePath a = ''package.json'') (rev fs) of
        None \<Rightarrow> NoFile
      | Some a \<Rightarrow>
          (case content a of
             JsonText v \<Rightarrow> Parsed v
           | Text s \<Rightarrow> (case jsonParse e s of None \<Rightarrow> Unparsable | Some v \<Rightarrow> Parsed v)))"

datatype exit = Completed | Aborted | Failed error

text \<open>
  How a run ends: the exit, the directories created (\<open>''.''\<close> is \<open>extDir\<close>) and
  the files written, in order.
\<close>

record outcome =
  exitStatus :: exit
  createdDirs :: "string list"
  written :: "file_artifact list"

text \<open>
  \<open>fs.existsSync(extDir)\<close> holds when a directory or a file is there;
  \<open>fs.mkdirSync(extDir)\<close> throws unless the parent is a directory. The process is taken
  to have the right to write where it creates.
\<close>

definition main :: "env \<Rightarrow> raw_options \<Rightarrow> outcome" where
  "main e r =
     (case normalizeOptions r of
        Inl err \<Rightarrow> \<lparr>exitStatus = Failed err, createdDirs = [], written = []\<rparr>
      | Inr opts \<Rightarrow>
          if \<not> confirmed (proceedRaw r)
          then \<lparr>exitStatus = Aborted, createdDirs = [], written = []\<rparr>
          else
            (let extDir = joinCwd (extensionName opts)
             in if nodeAt e extDir \<noteq> Missing
                then \<lparr>exitStatus = Failed DirectoryExists, createdDirs = [], written = []\<rparr>
                else if nodeAt e (fst extDir, butlast (snd extDir)) \<noteq> Dir
                then \<lparr>exitStatus = Failed FsError, createdDirs = [], written = []\<rparr>
                else
                  (let dirs = ''.'' # (if useSrcFolder opts then [''src''] else [])
                   in case synthesize opts of
                        Inl err \<Rightarrow>
                          \<lparr>exitStatus = Failed err, createdDirs = dirs,
                           written = files (beforePopup opts)\<rparr>
                      | Inr st \<Rightarrow>
                          (case resolvePackage opts (readPackageFile e (files st)) of
                             Inl err \<Rightarrow>
                               \<lparr>exitStatus = Failed err, createdDirs = dirs, written = files st\<rparr>
                           | Inr pkg \<Rightarrow>
                               \<lparr>exitStatus = Completed, createdDirs = dirs,
                                written =
                                  files st
                                  @ (case pkg of
                                       None \<Rightarrow> []
                                     | Some p \<Rightarrow>
                                         [\<lparr>relativePath = ''package.json'', content = JsonText p\<rparr>])
                                  @ [\<lparr>relativePath = ''TODO.md'',
                                      content = Text (joinLines (todoLines opts))\<rparr>]\<rparr>))))"

section \<open>Vocabulary of the properties\<close>

text \<open>The paths of the files written so far, in order.\<close>

definition paths :: "project \<Rightarrow> string list" where
  "paths st = map relativePath (files st)"

text \<open>Where a path lies: directly in the source subdirectory, or directly in \<open>extDir\<close>.\<close>

definition underSrc :: "string \<Rightarrow> bool" where
  "underSrc p \<longleftrightarrow> take 4 p = ''src/'' \<and> CHR ''/'' \<notin> set (drop 4 p)"

definition atRoot :: "string \<Rightarrow> bool" where
  "atRoot p \<longleftrightarrow> CHR ''/'' \<notin> set p"

text \<open>Options used as concrete inputs.\<close>

definition sampleOptions :: options where
  "sampleOptions =
     \<lparr> extensionName = ''Demo'', extensionDescription = ''A demo'', manifestVersion = 3,
       permissions = [''storage''], icons = [], additionalFeatures = [],
       popupLang = ''html'', backgroundLang = ''js'', contentLang = ''js'',
       useSrcFolder = False, buildOptions = [] \<rparr>"

text \<open>The file names the feature blocks write.\<close>

definition featureNames :: "string set" where
  "featureNames = {''background.js'', ''background.ts'', ''content.js'', ''content.ts'',
     ''options.html'', ''devtools.html'', ''popup.js'', ''popup.ts'', ''popup.tsx'',
     ''popup.html''}"

text \<open>The names of all properties in the manifest, at any depth.\<close>

definition allKeys :: "project \<Rightarrow> string set" where
  "allKeys st = set (keysOf (JObj (manifest st)))"

text \<open>Bounds on the property names of a version 3 and of a version 2 manifest.\<close>

definition manifestKeysV3 :: "string set" where
  "manifestKeysV3 =
     {''manifest_version'', ''name'', ''version'', ''description'', ''permissions'',
      ''icons'', ''16'', ''48'', ''128'', ''background'', ''service_worker'', ''type'',
      ''content_scripts'', ''matches'', ''js'', ''options_ui'', ''page'', ''open_in_tab'',
      ''action'', ''default_popup''}"

definition manifestKeysV2 :: "string set" where
  "manifestKeysV2 =
     {''manifest_version'', ''name'', ''version'', ''description'', ''permissions'',
      ''icons'', ''16'', ''48'', ''128'', ''background'', ''scripts'', ''persistent'',
      ''content_scripts'', ''matches'', ''js'', ''options_page'', ''devtools_page'',
      ''browser_action'', ''default_popup''}"

text \<open>
  The file names a manifest refers to: the background service worker or scripts, the
  scripts of the content script entries, the options page, the devtools page and the popup
  of the (browser) action.
\<close>

fun strOf :: "json option \<Rightarrow> string list" where
  "strOf (Some (JStr s)) = [s]"
| "strOf _ = []"

fun elems :: "json option \<Rightarrow> json list" where
  "elems (Some (JArr xs ps)) = xs"
| "elems _ = []"

fun field :: "json option \<Rightarrow> string \<Rightarrow> json option" where
  "field (Some (JObj fs)) k = map_of fs k"
| "field _ k = None"

definition referencedFiles :: "obj \<Rightarrow> string list" where
  "referencedFiles m =
     strOf (field (map_of m ''background'') ''service_worker'')
     @ concat (map (\<lambda>x. strOf (Some x)) (elems (field (map_of m ''background'') ''scripts'')))
     @ concat (map (\<lambda>cs. concat (map (\<lambda>x. strOf (Some x)) (elems (field (Some cs) ''js''))))
                (elems (map_of m ''content_scripts'')))
     @ strOf (field (map_of m ''options_ui'') ''page'')
     @ strOf (map_of m ''options_page'')
     @ strOf (map_of m ''devtools_page'')
     @ strOf (field (map_of m ''action'') ''default_popup'')
     @ strOf (field (map_of m ''browser_action'') ''default_popup'')"

text \<open>The source file written for a script the manifest refers to (lines 224 and 237).\<close>

definition authoredName :: "options \<Rightarrow> string \<Rightarrow> string" where
  "authoredName opts f =
     (if f = ''background.js'' then bgFileName opts
      else if f = ''content.js'' then contentFileName opts
      else f)"

text \<open>More concrete inputs.\<close>

definition tsBackgroundOptions :: options where
  "tsBackgroundOptions =
     sampleOptions\<lparr>additionalFeatures := [''background''], backgroundLang := ''ts''\<rparr>"

definition reactPopupOptions :: options where
  "reactPopupOptions = sampleOptions\<lparr>additionalFeatures := [''popup''], popupLang := ''react''\<rparr>"

definition srcFolderOptions :: options where
  "srcFolderOptions =
     sampleOptions\<lparr>additionalFeatures := [''background'', ''popup''], useSrcFolder := True\<rparr>"

definition devtoolsOptions :: options where
  "devtoolsOptions = sampleOptions\<lparr>additionalFeatures := [''devtools''], manifestVersion := 2\<rparr>"

definition sampleRaw :: raw_options where
  "sampleRaw =
     \<lparr> extNameRaw = Some ''  Demo '', extDescRaw = Some ''A demo'', versionRaw = Some 3,
       permissionsRaw = Some [''storage''], addIconsResp = Some True,
       icon16Raw = Some ''icon16.png'', icon48Raw = Some '' '', icon128Raw = None,
       additionalFeaturesRaw = Some [''background'', ''options'', ''devtools'', ''popup''],
       popupLangRaw = Some ''ts'', backgroundLangRaw = Some ''js'', contentLangRaw = None,
       useSrcFolderRaw = Some False, buildOptionsRaw = Some [''package'', ''esmodules''],
       proceedRaw = Some True \<rparr>"

definition sampleNormalized :: options where
  "sampleNormalized =
     \<lparr> extensionName = ''Demo'', extensionDescription = ''A demo'', manifestVersion = 3,
       permissions = [''storage''], icons = [(''16'', JStr ''icon16.png'')],
       additionalFeatures = [''background'', ''options'', ''devtools'', ''popup''],
       popupLang = ''ts'', backgroundLang = ''js'', contentLang = ''js'',
       useSrcFolder = False, buildOptions = [''package'', ''esmodules''] \<rparr>"


text \<open>An empty working directory, and more raw answers.\<close>

definition freshEnv :: env where
  "freshEnv = \<lparr>nodes = (\<lambda>loc. Missing), jsonParse = (\<lambda>s. None)\<rparr>"


definition blankDescriptionRaw :: raw_options where
  "blankDescriptionRaw = sampleRaw\<lparr>extDescRaw := Some ''   ''\<rparr>"


definition noneSentinelRaw :: raw_options where
  "noneSentinelRaw = sampleRaw\<lparr>buildOptionsRaw := Some [''bundler-webpack'', ''none'', ''jquery-npm'']\<rparr>"

section \<open>Basic facts about the synthesis\<close>

lemma bindE_Inr [simp]: "bindE (Inr a) f = f a"
  by (simp add: bindE_def)

lemma bindE_Inl [simp]: "bindE (Inl e) f = Inl e"
  by (simp add: bindE_def)

lemma bindE_eq_Inr: "bindE m f = Inr y \<longleftrightarrow> (\<exists>a. m = Inr a \<and> f a = Inr y)"
  by (cases m) simp_all

lemma paths_writeFile [simp]: "paths (writeFile p c st) = paths st @ [p]"
  by (simp add: paths_def writeFile_def)

lemma manifest_writeFile [simp]: "manifest (writeFile p c st) = manifest st"
  by (simp add: writeFile_def)

lemma paths_manifest_update [simp]: "paths (st\<lparr>manifest := m\<rparr>) = paths st"
  by (simp add: paths_def)

lemma paths_initial [simp]: "paths (initialProject opts) = []"
  by (simp add: paths_def initialProject_def)

lemma paths_iconsStep [simp]: "paths (iconsStep opts st) = paths st"
  by (simp add: iconsStep_def)

lemma paths_backgroundStep:
  "paths (backgroundStep opts st) =
     paths st @ (if includesElem (additionalFeatures opts) ''background''
                 then [filePath opts (bgFileName opts)] else [])"
  by (simp add: backgroundStep_def)

lemma paths_contentStep:
  "paths (contentStep opts st) =
     paths st @ (if includesElem (additionalFeatures opts) ''content''
                 then [filePath opts (contentFileName opts)] else [])"
  by (simp add: contentStep_def)

lemma paths_optionsStep:
  "paths (optionsStep opts st) =
     paths st @ (if includesElem (additionalFeatures opts) ''options''
                 then [filePath opts ''options.html''] else [])"
  by (simp add: optionsStep_def Let_def)

lemma paths_devtoolsStep:
  "paths (devtoolsStep opts st) =
     paths st @ (if includesElem (additionalFeatures opts) ''devtools'' \<and> manifestVersion opts = 2
                 then [filePath opts ''devtools.html''] else [])"
  by (simp add: devtoolsStep_def Let_def)

lemma paths_popupSourceStep:
  "paths (popupSourceStep opts st) =
     paths st @ (if popupLang opts = ''html'' then [filePath opts ''popup.js'']
                 else if popupLang opts = ''ts'' then [filePath opts ''popup.ts'']
                 else if popupLang opts = ''react'' then [filePath opts ''popup.tsx'']
                 else [])"
  by (simp add: popupSourceStep_def)

lemma manifest_popupSourceStep [simp]: "manifest (popupSourceStep opts st) = manifest st"
  by (simp add: popupSourceStep_def)

lemma paths_beforePopup:
  "paths (beforePopup opts) =
     (if includesElem (additionalFeatures opts) ''background''
      then [filePath opts (bgFileName opts)] else [])
     @ (if includesElem (additionalFeatures opts) ''content''
        then [filePath opts (contentFileName opts)] else [])
     @ (if includesElem (additionalFeatures opts) ''options''
        then [filePath opts ''options.html''] else [])
     @ (if includesElem (additionalFeatures opts) ''devtools'' \<and> manifestVersion opts = 2
        then [filePath opts ''devtools.html''] else [])"
  by (simp add: beforePopup_def paths_devtoolsStep paths_optionsStep paths_contentStep
      paths_backgroundStep)

lemma lookup_iconsStep:
  "map_of (manifest (iconsStep opts st)) k =
     (if length (icons opts) > 0 \<and> k = ''icons'' then Some (JObj (icons opts))
      else map_of (manifest st) k)"
  by (simp add: iconsStep_def update_conv')

lemma lookup_backgroundStep:
  "map_of (manifest (backgroundStep opts st)) k =
     (if includesElem (additionalFeatures opts) ''background'' \<and> k = ''background''
      then Some (if manifestVersion opts = 3
                 then JObj ((''service_worker'', JStr ''background.js'')
                            # (if includesElem (buildOptions opts) ''esmodules''
                               then [(''type'', JStr ''module'')] else []))
                 else JObj [(''scripts'', JArr [JStr ''background.js''] []),
                            (''persistent'', JBool False)])
      else map_of (manifest st) k)"
  by (simp add: backgroundStep_def update_conv')

lemma lookup_contentStep:
  "map_of (manifest (contentStep opts st)) k =
     (if includesElem (additionalFeatures opts) ''content'' \<and> k = ''content_scripts''
      then Some (JArr [JObj [(''matches'', JArr [JStr ''<all_urls>''] []),
                             (''js'', JArr [JStr ''content.js''] [])]] [])
      else map_of (manifest st) k)"
  by (simp add: contentStep_def update_conv')

lemma lookup_optionsStep:
  "map_of (manifest (optionsStep opts st)) k =
     (if includesElem (additionalFeatures opts) ''options'' \<and> manifestVersion opts = 3 \<and> k = ''options_ui''
      then Some (JObj [(''page'', JStr ''options.html''), (''open_in_tab'', JBool True)])
      else if includesElem (additionalFeatures opts) ''options'' \<and> manifestVersion opts \<noteq> 3 \<and> k = ''options_page''
      then Some (JStr ''options.html'')
      else map_of (manifest st) k)"
  by (simp add: optionsStep_def update_conv' Let_def)

lemma lookup_devtoolsStep:
  "map_of (manifest (devtoolsStep opts st)) k =
     (if includesElem (additionalFeatures opts) ''devtools'' \<and> manifestVersion opts = 2 \<and> k = ''devtools_page''
      then Some (JStr ''devtools.html'')
      else map_of (manifest st) k)"
  by (simp add: devtoolsStep_def update_conv' Let_def)

lemma lookup_initial:
  "map_of (manifest (initialProject opts)) k =
     (if k = ''manifest_version'' then Some (JNum (manifestVersion opts))
      else if k = ''name'' then Some (JStr (extensionName opts))
      else if k = ''version'' then Some (JStr ''1.0.0'')
      else if k = ''description'' then Some (JStr (extensionDescription opts))
      else if k = ''permissions'' then Some (JArr (map JStr (permissions opts)) [])
      else None)"
  by (simp add: initialProject_def)

lemmas lookup_steps = lookup_devtoolsStep lookup_optionsStep lookup_contentStep
  lookup_backgroundStep lookup_iconsStep lookup_initial

lemma no_action_beforePopup:
  "map_of (manifest (beforePopup opts)) ''action'' = None"
  "map_of (manifest (beforePopup opts)) ''browser_action'' = None"
  by (simp_all add: beforePopup_def lookup_steps)

lemma popupStep_beforePopup:
  "popupStep opts (beforePopup opts) =
     Inr (let key = (if manifestVersion opts = 3 then ''action'' else ''browser_action'')
          in if includesElem (additionalFeatures opts) ''popup''
             then writeFile (filePath opts ''popup.html'')
                    (Text (injectJquery opts (popupHTMLContent opts)))
                    (popupSourceStep opts ((beforePopup opts)\<lparr>manifest :=
                       AList.update key (JObj [(''default_popup'', JStr ''popup.html'')])
                         (manifest (beforePopup opts))\<rparr>))
             else (beforePopup opts)\<lparr>manifest :=
                    AList.update key (JObj []) (manifest (beforePopup opts))\<rparr>)"
  by (simp add: popupStep_def objDefault_def objSetNested_def Let_def update_conv'
      no_action_beforePopup)

lemma synthesize_total: "\<exists>st. synthesize opts = Inr st"
  by (simp add: synthesize_def popupStep_beforePopup)

lemma lookup_synthesize:
  assumes "synthesize opts = Inr st"
  shows "map_of (manifest st) k =
     (if k = (if manifestVersion opts = 3 then ''action'' else ''browser_action'')
      then Some (if includesElem (additionalFeatures opts) ''popup''
                 then JObj [(''default_popup'', JStr ''popup.html'')] else JObj [])
      else map_of (manifest (beforePopup opts)) k)"
  using assms
  by (auto simp add: synthesize_def popupStep_beforePopup writeManifest_def Let_def update_conv')

lemma paths_synthesize:
  assumes "synthesize opts = Inr st"
  shows "paths st =
     paths (beforePopup opts)
     @ (if includesElem (additionalFeatures opts) ''popup''
        then (if popupLang opts = ''html'' then [filePath opts ''popup.js'']
              else if popupLang opts = ''ts'' then [filePath opts ''popup.ts'']
              else if popupLang opts = ''react'' then [filePath opts ''popup.tsx'']
              else [])
             @ [filePath opts ''popup.html'']
        else [])
     @ [''manifest.json'']"
  using assms
  by (auto simp add: synthesize_def popupStep_beforePopup writeManifest_def Let_def
      paths_popupSourceStep)

lemma last_file_synthesize:
  assumes "synthesize opts = Inr st"
  shows "files st \<noteq> [] \<and>
     last (files st) = \<lparr>relativePath = ''manifest.json'', content = JsonText (JObj (manifest st))\<rparr>"
  using assms
  by (auto simp add: synthesize_def popupStep_beforePopup writeManifest_def writeFile_def Let_def)

lemma filePath_inject [simp]: "filePath opts a = filePath opts b \<longleftrightarrow> a = b"
  by (simp add: filePath_def)

lemma underSrc_filePath:
  "CHR ''/'' \<notin> set n \<Longrightarrow> underSrc (filePath opts n) \<longleftrightarrow> useSrcFolder opts"
  by (cases n; cases "tl n"; cases "tl (tl n)"; cases "tl (tl (tl n))")
     (auto simp add: underSrc_def filePath_def)

lemma atRoot_filePath:
  "CHR ''/'' \<notin> set n \<Longrightarrow> atRoot (filePath opts n) \<longleftrightarrow> \<not> useSrcFolder opts"
  by (simp add: atRoot_def filePath_def)

lemma feature_paths:
  assumes "synthesize opts = Inr st"
  shows "set (butlast (paths st)) \<subseteq> filePath opts ` featureNames"
proof -
  have "butlast (paths st) =
     paths (beforePopup opts)
     @ (if includesElem (additionalFeatures opts) ''popup''
        then (if popupLang opts = ''html'' then [filePath opts ''popup.js'']
              else if popupLang opts = ''ts'' then [filePath opts ''popup.ts'']
              else if popupLang opts = ''react'' then [filePath opts ''popup.tsx'']
              else [])
             @ [filePath opts ''popup.html'']
        else [])"
    unfolding paths_synthesize [OF assms(1)] by (simp only: append_assoc [symmetric] butlast_snoc)
  moreover have "set (paths (beforePopup opts)) \<subseteq> filePath opts ` featureNames"
    by (auto simp add: paths_beforePopup bgFileName_def contentFileName_def featureNames_def)
  ultimately show ?thesis
    by (auto simp add: featureNames_def)
qed

lemma keysOf_obj: "set (keysOf (JObj fs)) = (\<Union>p \<in> set fs. insert (fst p) (set (keysOf (snd p))))"
  by (induction fs) auto

lemma keysOf_update:
  "set (keysOf (JObj (AList.update k v m))) \<subseteq> insert k (set (keysOf v) \<union> set (keysOf (JObj m)))"
proof -
  have "set (AList.update k v m) \<subseteq> insert (k, v) (set m)"
    by (induction m) auto
  then show ?thesis
    unfolding keysOf_obj by fastforce
qed

lemma keysOf_strings [simp]: "concat (map keysOf (map JStr xs)) = []"
  by (induction xs) simp_all

lemma allKeys_initial:
  "allKeys (initialProject opts) =
     {''manifest_version'', ''name'', ''version'', ''description'', ''permissions''}"
  by (auto simp add: allKeys_def initialProject_def)

lemma keysOf_addIcon:
  "set (keysOf (JObj (addIcon k raw ics))) \<subseteq> insert k (set (keysOf (JObj ics)))"
  using keysOf_update [of k "JStr s" ics for s]
  by (auto simp add: addIcon_def Let_def)

lemma keysOf_readIcons: "set (keysOf (JObj (readIcons r))) \<subseteq> {''16'', ''48'', ''128''}"
proof -
  let ?i1 = "addIcon ''16'' (icon16Raw r) []"
  let ?i2 = "addIcon ''48'' (icon48Raw r) ?i1"
  let ?i3 = "addIcon ''128'' (icon128Raw r) ?i2"
  have "set (keysOf (JObj ?i1)) \<subseteq> {''16''}"
    using keysOf_addIcon [of "''16''" "icon16Raw r" "[]"] by simp
  then have "set (keysOf (JObj ?i2)) \<subseteq> {''16'', ''48''}"
    using keysOf_addIcon [of "''48''" "icon48Raw r" ?i1] by blast
  then have "set (keysOf (JObj ?i3)) \<subseteq> {''16'', ''48'', ''128''}"
    using keysOf_addIcon [of "''128''" "icon128Raw r" ?i2] by blast
  then show ?thesis
    by (cases "confirmed (addIconsResp r)") (simp_all only: readIcons_def if_True if_False, simp)
qed

lemma normalize_icons: "normalizeOptions r = Inr opts \<Longrightarrow> icons opts = readIcons r"
  by (auto simp add: normalizeOptions_def Let_def split: option.splits if_splits)

lemma allKeys_update_bound:
  assumes "manifest st' = AList.update k v (manifest st)" and "set (keysOf v) \<subseteq> V"
  shows "allKeys st' \<subseteq> allKeys st \<union> insert k V"
  using keysOf_update [of k v "manifest st"] assms(2) unfolding allKeys_def assms(1) by blast

lemma allKeys_same: "manifest st' = manifest st \<Longrightarrow> allKeys st' \<subseteq> allKeys st \<union> V"
  unfolding allKeys_def by simp

lemma allKeys_iconsStep:
  "allKeys (iconsStep opts st) \<subseteq> allKeys st \<union> insert ''icons'' (set (keysOf (JObj (icons opts))))"
proof (cases "length (icons opts) > 0")
  case True
  show ?thesis
    by (rule allKeys_update_bound [where v = "JObj (icons opts)"])
       (use True in \<open>simp_all add: iconsStep_def\<close>)
next
  case False
  show ?thesis
    by (rule allKeys_same) (use False in \<open>simp add: iconsStep_def\<close>)
qed

lemma allKeys_backgroundStep_v3:
  assumes "manifestVersion opts = 3"
  shows "allKeys (backgroundStep opts st) \<subseteq>
     allKeys st \<union> insert ''background'' {''service_worker'', ''type''}"
proof (cases "includesElem (additionalFeatures opts) ''background''")
  case True
  show ?thesis
    by (rule allKeys_update_bound
        [where v = "JObj ((''service_worker'', JStr ''background.js'')
                       # (if includesElem (buildOptions opts) ''esmodules''
                          then [(''type'', JStr ''module'')] else []))"])
       (simp_all add: backgroundStep_def True assms)
next
  case False
  show ?thesis
    by (rule allKeys_same) (simp add: backgroundStep_def False)
qed

lemma allKeys_backgroundStep_other:
  assumes "manifestVersion opts \<noteq> 3"
  shows "allKeys (backgroundStep opts st) \<subseteq>
     allKeys st \<union> insert ''background'' {''scripts'', ''persistent''}"
proof (cases "includesElem (additionalFeatures opts) ''background''")
  case True
  show ?thesis
    by (rule allKeys_update_bound
        [where v = "JObj [(''scripts'', JArr [JStr ''background.js''] []),
                       (''persistent'', JBool False)]"])
       (simp_all add: backgroundStep_def True assms)
next
  case False
  show ?thesis
    by (rule allKeys_same) (simp add: backgroundStep_def False)
qed

lemma allKeys_contentStep:
  "allKeys (contentStep opts st) \<subseteq> allKeys st \<union> insert ''content_scripts'' {''matches'', ''js''}"
proof (cases "includesElem (additionalFeatures opts) ''content''")
  case True
  show ?thesis
    by (rule allKeys_update_bound
        [where v = "JArr [JObj [(''matches'', JArr [JStr ''<all_urls>''] []),
                             (''js'', JArr [JStr ''content.js''] [])]] []"])
       (simp_all add: contentStep_def True)
next
  case False
  show ?thesis
    by (rule allKeys_same) (simp add: contentStep_def False)
qed

lemma allKeys_optionsStep_v3:
  assumes "manifestVersion opts = 3"
  shows "allKeys (optionsStep opts st) \<subseteq>
     allKeys st \<union> insert ''options_ui'' {''page'', ''open_in_tab''}"
proof (cases "includesElem (additionalFeatures opts) ''options''")
  case True
  show ?thesis
    by (rule allKeys_update_bound
        [where v = "JObj [(''page'', JStr ''options.html''), (''open_in_tab'', JBool True)]"])
       (simp_all add: optionsStep_def Let_def True assms)
next
  case False
  show ?thesis
    by (rule allKeys_same) (simp add: optionsStep_def False)
qed

lemma allKeys_optionsStep_other:
  assumes "manifestVersion opts \<noteq> 3"
  shows "allKeys (optionsStep opts st) \<subseteq> allKeys st \<union> insert ''options_page'' {}"
proof (cases "includesElem (additionalFeatures opts) ''options''")
  case True
  show ?thesis
    by (rule allKeys_update_bound [where v = "JStr ''options.html''"])
       (simp_all add: optionsStep_def Let_def True assms)
next
  case False
  show ?thesis
    by (rule allKeys_same) (simp add: optionsStep_def False)
qed

lemma allKeys_devtoolsStep_v2:
  "allKeys (devtoolsStep opts st) \<subseteq> allKeys st \<union> insert ''devtools_page'' {}"
proof (cases "includesElem (additionalFeatures opts) ''devtools'' \<and> manifestVersion opts = 2")
  case True
  show ?thesis
    by (rule allKeys_update_bound [where v = "JStr ''devtools.html''"])
       (simp_all add: devtoolsStep_def Let_def True)
next
  case False
  show ?thesis
    by (rule allKeys_same) (use False in \<open>auto simp add: devtoolsStep_def\<close>)
qed

lemma allKeys_devtoolsStep_other:
  "manifestVersion opts \<noteq> 2 \<Longrightarrow> allKeys (devtoolsStep opts st) = allKeys st"
  by (simp add: devtoolsStep_def)

lemma allKeys_synthesize:
  assumes "synthesize opts = Inr st"
  shows "allKeys st \<subseteq>
     allKeys (beforePopup opts)
     \<union> insert (if manifestVersion opts = 3 then ''action'' else ''browser_action'')
         {''default_popup''}"
proof (rule allKeys_update_bound)
  show "manifest st =
      AList.update (if manifestVersion opts = 3 then ''action'' else ''browser_action'')
        (if includesElem (additionalFeatures opts) ''popup''
         then JObj [(''default_popup'', JStr ''popup.html'')] else JObj [])
        (manifest (beforePopup opts))"
    using assms
    by (auto simp add: synthesize_def popupStep_beforePopup writeManifest_def Let_def)
  show "set (keysOf (if includesElem (additionalFeatures opts) ''popup''
         then JObj [(''default_popup'', JStr ''popup.html'')] else JObj [])) \<subseteq> {''default_popup''}"
    by simp
qed

lemma bounded_step: "A \<subseteq> B \<union> C \<Longrightarrow> B \<subseteq> K \<Longrightarrow> C \<subseteq> K \<Longrightarrow> A \<subseteq> (K::'a set)"
  by blast

lemma allKeys_v3:
  assumes "normalizeOptions r = Inr opts" and "synthesize opts = Inr st" and "manifestVersion opts = 3"
  shows "allKeys st \<subseteq> manifestKeysV3"
proof -
  let ?s0 = "initialProject opts"
  let ?s1 = "iconsStep opts ?s0"
  let ?s2 = "backgroundStep opts ?s1"
  let ?s3 = "contentStep opts ?s2"
  let ?s4 = "optionsStep opts ?s3"
  let ?s5 = "devtoolsStep opts ?s4"
  have k0: "allKeys ?s0 \<subseteq> manifestKeysV3"
    by (simp add: allKeys_initial manifestKeysV3_def)
  have "insert ''icons'' (set (keysOf (JObj (icons opts)))) \<subseteq> insert ''icons'' {''16'', ''48'', ''128''}"
    using keysOf_readIcons [of r] unfolding normalize_icons [OF assms(1)] by (rule insert_mono)
  also have "\<dots> \<subseteq> manifestKeysV3"
    by (simp add: manifestKeysV3_def)
  finally have k1: "allKeys ?s1 \<subseteq> manifestKeysV3"
    by (rule bounded_step [OF allKeys_iconsStep k0])
  have k2: "allKeys ?s2 \<subseteq> manifestKeysV3"
    by (rule bounded_step [OF allKeys_backgroundStep_v3 [OF assms(3)] k1])
       (simp add: manifestKeysV3_def)
  have k3: "allKeys ?s3 \<subseteq> manifestKeysV3"
    by (rule bounded_step [OF allKeys_contentStep k2]) (simp add: manifestKeysV3_def)
  have k4: "allKeys ?s4 \<subseteq> manifestKeysV3"
    by (rule bounded_step [OF allKeys_optionsStep_v3 [OF assms(3)] k3])
       (simp add: manifestKeysV3_def)
  have k5: "allKeys (beforePopup opts) \<subseteq> manifestKeysV3"
    using k4 assms(3) by (simp add: beforePopup_def allKeys_devtoolsStep_other)
  show ?thesis
    by (rule bounded_step [OF allKeys_synthesize [OF assms(2)] k5])
       (simp add: manifestKeysV3_def assms(3))
qed

lemma allKeys_v2:
  assumes "normalizeOptions r = Inr opts" and "synthesize opts = Inr st" and "manifestVersion opts \<noteq> 3"
  shows "allKeys st \<subseteq> manifestKeysV2"
proof -
  let ?s0 = "initialProject opts"
  let ?s1 = "iconsStep opts ?s0"
  let ?s2 = "backgroundStep opts ?s1"
  let ?s3 = "contentStep opts ?s2"
  let ?s4 = "optionsStep opts ?s3"
  let ?s5 = "devtoolsStep opts ?s4"
  have k0: "allKeys ?s0 \<subseteq> manifestKeysV2"
    by (simp add: allKeys_initial manifestKeysV2_def)
  have "insert ''icons'' (set (keysOf (JObj (icons opts)))) \<subseteq> insert ''icons'' {''16'', ''48'', ''128''}"
    using keysOf_readIcons [of r] unfolding normalize_icons [OF assms(1)] by (rule insert_mono)
  also have "\<dots> \<subseteq> manifestKeysV2"
    by (simp add: manifestKeysV2_def)
  finally have k1: "allKeys ?s1 \<subseteq> manifestKeysV2"
    by (rule bounded_step [OF allKeys_iconsStep k0])
  have k2: "allKeys ?s2 \<subseteq> manifestKeysV2"
    by (rule bounded_step [OF allKeys_backgroundStep_other [OF assms(3)] k1])
       (simp add: manifestKeysV2_def)
  have k3: "allKeys ?s3 \<subseteq> manifestKeysV2"
    by (rule bounded_step [OF allKeys_contentStep k2]) (simp add: manifestKeysV2_def)
  have k4: "allKeys ?s4 \<subseteq> manifestKeysV2"
    by (rule bounded_step [OF allKeys_optionsStep_other [OF assms(3)] k3])
       (simp add: manifestKeysV2_def)
  have k5: "allKeys ?s5 \<subseteq> manifestKeysV2"
    by (rule bounded_step [OF allKeys_devtoolsStep_v2 k4]) (simp add: manifestKeysV2_def)
  show ?thesis
    by (rule bounded_step [OF allKeys_synthesize [OF assms(2)]])
       (use k5 assms(3) in \<open>simp_all add: manifestKeysV2_def beforePopup_def\<close>)
qed

lemma referencedFiles_synthesize:
  assumes "synthesize opts = Inr st"
  shows "referencedFiles (manifest st) =
     (if includesElem (additionalFeatures opts) ''background'' then [''background.js''] else [])
     @ (if includesElem (additionalFeatures opts) ''content'' then [''content.js''] else [])
     @ (if includesElem (additionalFeatures opts) ''options'' then [''options.html''] else [])
     @ (if includesElem (additionalFeatures opts) ''devtools'' \<and> manifestVersion opts = 2
        then [''devtools.html''] else [])
     @ (if includesElem (additionalFeatures opts) ''popup'' then [''popup.html''] else [])"
proof -
  note lk = lookup_synthesize [OF assms] beforePopup_def lookup_steps
  have bg: "strOf (field (map_of (manifest st) ''background'') ''service_worker'')
        @ concat (map (\<lambda>x. strOf (Some x)) (elems (field (map_of (manifest st) ''background'') ''scripts'')))
      = (if includesElem (additionalFeatures opts) ''background'' then [''background.js''] else [])"
    by (simp add: lk)
  have cs: "concat (map (\<lambda>cs. concat (map (\<lambda>x. strOf (Some x)) (elems (field (Some cs) ''js''))))
                (elems (map_of (manifest st) ''content_scripts'')))
      = (if includesElem (additionalFeatures opts) ''content'' then [''content.js''] else [])"
    by (simp add: lk)
  have op: "strOf (field (map_of (manifest st) ''options_ui'') ''page'')
        @ strOf (map_of (manifest st) ''options_page'')
      = (if includesElem (additionalFeatures opts) ''options'' then [''options.html''] else [])"
    by (simp add: lk)
  have dv: "strOf (map_of (manifest st) ''devtools_page'')
      = (if includesElem (additionalFeatures opts) ''devtools'' \<and> manifestVersion opts = 2
        then [''devtools.html''] else [])"
    by (simp add: lk)
  have pp: "strOf (field (map_of (manifest st) ''action'') ''default_popup'')
        @ strOf (field (map_of (manifest st) ''browser_action'') ''default_popup'')
      = (if includesElem (additionalFeatures opts) ''popup'' then [''popup.html''] else [])"
    by (simp add: lk)
  have "referencedFiles (manifest st) =
      (strOf (field (map_of (manifest st) ''background'') ''service_worker'')
        @ concat (map (\<lambda>x. strOf (Some x)) (elems (field (map_of (manifest st) ''background'') ''scripts''))))
      @ concat (map (\<lambda>cs. concat (map (\<lambda>x. strOf (Some x)) (elems (field (Some cs) ''js''))))
                (elems (map_of (manifest st) ''content_scripts'')))
      @ (strOf (field (map_of (manifest st) ''options_ui'') ''page'')
        @ strOf (map_of (manifest st) ''options_page''))
      @ strOf (map_of (manifest st) ''devtools_page'')
      @ (strOf (field (map_of (manifest st) ''action'') ''default_popup'')
        @ strOf (field (map_of (manifest st) ''browser_action'') ''default_popup''))"
    by (simp only: referencedFiles_def append_assoc)
  then show ?thesis
    by (simp only: bg cs op dv pp)
qed

lemma trim_Demo: "trim ''  Demo '' = ''Demo''" "trim ''A demo'' = ''A demo''"
  "trim ''icon16.png'' = ''icon16.png''" "trim '' '' = []"
  by (simp_all add: trim_def isSpace_def)

lemma normalize_sampleRaw: "normalizeOptions sampleRaw = Inr sampleNormalized"
  by (simp add: normalizeOptions_def sampleRaw_def sampleNormalized_def readIcons_def
      addIcon_def readLang_def readBuildOptions_def trim_Demo Let_def)

lemma normalize_sampleRaw_v2:
  "normalizeOptions (sampleRaw\<lparr>versionRaw := Some 2\<rparr>) = Inr (sampleNormalized\<lparr>manifestVersion := 2\<rparr>)"
  by (simp add: normalizeOptions_def sampleRaw_def sampleNormalized_def readIcons_def
      addIcon_def readLang_def readBuildOptions_def trim_Demo Let_def)

lemma main_normalize_fails:
  "normalizeOptions r = Inl err \<Longrightarrow>
     main e r = \<lparr>exitStatus = Failed err, createdDirs = [], written = []\<rparr>"
  by (simp add: main_def)

lemma readPackageFile_absent:
  "''package.json'' \<notin> relativePath ` set fs \<Longrightarrow> readPackageFile e fs = NoFile"
proof -
  assume "''package.json'' \<notin> relativePath ` set fs"
  then have "\<not> (\<exists>a. a \<in> set (rev fs) \<and> relativePath a = ''package.json'')"
    by (metis imageI set_rev)
  then have "List.find (\<lambda>a. relativePath a = ''package.json'') (rev fs) = None"
    by (simp add: find_None_iff)
  then show ?thesis
    by (simp add: readPackageFile_def)
qed

lemma main_completed:
  assumes "normalizeOptions r = Inr opts" and "confirmed (proceedRaw r)"
    and "nodeAt e (joinCwd (extensionName opts)) = Missing"
    and "nodeAt e (fst (joinCwd (extensionName opts)), butlast (snd (joinCwd (extensionName opts)))) = Dir"
    and "synthesize opts = Inr st" and "resolvePackage opts (readPackageFile e (files st)) = Inr pkg"
  shows "exitStatus (main e r) = Completed"
    and "map relativePath (written (main e r)) =
          paths st @ (case pkg of None \<Rightarrow> [] | Some p \<Rightarrow> [''package.json'']) @ [''TODO.md'']"
  using assms by (simp_all add: main_def paths_def Let_def split: option.splits)

lemma normalize_text_fields:
  assumes "normalizeOptions r = Inr opts"
  shows "extNameRaw r \<noteq> None" and "extDescRaw r \<noteq> None"
    and "extensionName opts = trim (the (extNameRaw r))"
    and "extensionDescription opts = trim (the (extDescRaw r))"
    and "buildOptions opts = readBuildOptions (buildOptionsRaw r)"
  using assms
  by (auto simp add: normalizeOptions_def Let_def split: option.splits if_splits)

lemma packageName_Demo: "replaceSpaceRuns (toLowerCase ''Demo'') = ''demo''"
  by code_simp

lemma resolve_sampleNormalized:
  "resolvePackage (sampleNormalized\<lparr>extensionDescription := []\<rparr>) NoFile =
     Inr (Some (JObj [(''name'', JStr ''demo''), (''version'', JStr ''1.0.0''),
                      (''scripts'', JObj [(''build'', JStr ''tsc'')]),
                      (''devDependencies'', JObj []), (''dependencies'', JObj [])]))"
  by (simp add: resolvePackage_def mergePackage_def sampleNormalized_def defaultProp_def
      updateNested_def webpackStep_def rollupStep_def jqueryStep_def includesElem_def
      packageName_Demo)

lemma no_package_json_in_plan:
  assumes "synthesize opts = Inr st"
  shows "''package.json'' \<notin> set (paths st)"
proof -
  have ne: "paths st \<noteq> []" and l: "last (paths st) = ''manifest.json''"
    by (simp_all add: paths_synthesize [OF assms])
  have "set (paths st) = set (butlast (paths st) @ [last (paths st)])"
    using ne by simp
  then have s: "set (paths st) = insert ''manifest.json'' (set (butlast (paths st)))"
    unfolding l by simp
  have "''package.json'' \<notin> filePath opts ` featureNames"
    by (auto simp add: featureNames_def filePath_def)
  then have "''package.json'' \<notin> set (butlast (paths st))"
    using feature_paths [OF assms] by blast
  then show ?thesis
    unfolding s by simp
qed

lemma package_file_never_found:
  assumes "synthesize opts = Inr st"
  shows "readPackageFile e (files st) = NoFile"
  using no_package_json_in_plan [OF assms]
  by (intro readPackageFile_absent) (simp add: paths_def)

lemma joinCwd_Demo: "joinCwd ''Demo'' = (0, [''Demo''])"
  by (simp add: joinCwd_def stepInto_def)

section \<open>The claims\<close>

text \<open>
  C10. For all options, the synthesis succeeds and the manifest holds \<open>version\<close> equal
  to \<open>"1.0.0"\<close> and \<open>name\<close>, \<open>description\<close> and \<open>permissions\<close> exactly as the
  options give them, whatever the manifest version, the features and the build options.
\<close>

theorem manifest_fixed_fields:
  "\<exists>st. synthesize opts = Inr st
     \<and> map_of (manifest st) ''version'' = Some (JStr ''1.0.0'')
     \<and> map_of (manifest st) ''name'' = Some (JStr (extensionName opts))
     \<and> map_of (manifest st) ''description'' = Some (JStr (extensionDescription opts))
     \<and> map_of (manifest st) ''permissions'' = Some (JArr (map JStr (permissions opts)) [])"
proof -
  obtain st where st: "synthesize opts = Inr st"
    using synthesize_total by blast
  have "map_of (manifest st) ''version'' = Some (JStr ''1.0.0'')"
    by (simp add: lookup_synthesize [OF st] beforePopup_def lookup_steps)
  moreover have "map_of (manifest st) ''name'' = Some (JStr (extensionName opts))"
    by (simp add: lookup_synthesize [OF st] beforePopup_def lookup_steps)
  moreover have "map_of (manifest st) ''description'' = Some (JStr (extensionDescription opts))"
    by (simp add: lookup_synthesize [OF st] beforePopup_def lookup_steps)
  moreover have "map_of (manifest st) ''permissions'' = Some (JArr (map JStr (permissions opts)) [])"
    by (simp add: lookup_synthesize [OF st] beforePopup_def lookup_steps)
  ultimately show ?thesis
    using st by blast
qed

text \<open>
  C8. When the popup feature is not selected, the manifest still holds an empty-object
  stub: \<open>browser_action = {}\<close> under manifest version 2 and \<open>action = {}\<close> under
  manifest version 3.
\<close>

theorem popup_stub_emitted:
  assumes "\<not> includesElem (additionalFeatures opts) ''popup''"
  shows "\<exists>st. synthesize opts = Inr st
     \<and> (manifestVersion opts = 2 \<longrightarrow> map_of (manifest st) ''browser_action'' = Some (JObj []))
     \<and> (manifestVersion opts = 3 \<longrightarrow> map_of (manifest st) ''action'' = Some (JObj []))"
proof -
  obtain st where st: "synthesize opts = Inr st"
    using synthesize_total by blast
  have "manifestVersion opts = 2 \<longrightarrow> map_of (manifest st) ''browser_action'' = Some (JObj [])"
    using assms by (simp add: lookup_synthesize [OF st])
  moreover have "manifestVersion opts = 3 \<longrightarrow> map_of (manifest st) ''action'' = Some (JObj [])"
    using assms by (simp add: lookup_synthesize [OF st])
  ultimately show ?thesis
    using st by blast
qed

theorem popup_stub_emitted_witness:
  "\<not> includesElem (additionalFeatures sampleOptions) ''popup''
   \<and> manifestVersion sampleOptions = 3
   \<and> (\<exists>st. synthesize sampleOptions = Inr st \<and> map_of (manifest st) ''action'' = Some (JObj []))
   \<and> \<not> includesElem (additionalFeatures (sampleOptions\<lparr>manifestVersion := 2\<rparr>)) ''popup''
   \<and> manifestVersion (sampleOptions\<lparr>manifestVersion := 2\<rparr>) = 2
   \<and> (\<exists>st. synthesize (sampleOptions\<lparr>manifestVersion := 2\<rparr>) = Inr st
         \<and> map_of (manifest st) ''browser_action'' = Some (JObj []))"
proof -
  have h3: "\<not> includesElem (additionalFeatures sampleOptions) ''popup''"
    by (simp add: sampleOptions_def includesElem_def)
  have h2: "\<not> includesElem (additionalFeatures (sampleOptions\<lparr>manifestVersion := 2\<rparr>)) ''popup''"
    by (simp add: sampleOptions_def includesElem_def)
  have v3: "manifestVersion sampleOptions = 3"
    by (simp add: sampleOptions_def)
  have v2: "manifestVersion (sampleOptions\<lparr>manifestVersion := 2\<rparr>) = 2"
    by simp
  show ?thesis
    using popup_stub_emitted [OF h3] popup_stub_emitted [OF h2] h3 h2 v3 v2 by auto
qed

text \<open>
  C6. The devtools feature is materialised, as the file \<open>devtools.html\<close> (at the place
  \<open>filePath\<close> gives it) and as the manifest entry \<open>devtools_page\<close>, exactly when it
  is selected and the manifest version is 2. Otherwise neither appears, and the synthesis
  still succeeds: devtools selected under version 3 is dropped without an error.
\<close>

theorem devtools_only_under_v2:
  "\<exists>st. synthesize opts = Inr st
     \<and> (filePath opts ''devtools.html'' \<in> set (paths st)
          \<longleftrightarrow> includesElem (additionalFeatures opts) ''devtools'' \<and> manifestVersion opts = 2)
     \<and> map_of (manifest st) ''devtools_page''
         = (if includesElem (additionalFeatures opts) ''devtools'' \<and> manifestVersion opts = 2
            then Some (JStr ''devtools.html'') else None)"
proof -
  obtain st where st: "synthesize opts = Inr st"
    using synthesize_total by blast
  have nomanifest: "filePath opts ''devtools.html'' \<noteq> ''manifest.json''"
    by (simp add: filePath_def)
  have "filePath opts ''devtools.html'' \<in> set (paths st)
          \<longleftrightarrow> includesElem (additionalFeatures opts) ''devtools'' \<and> manifestVersion opts = 2"
    using nomanifest
    by (simp add: paths_synthesize [OF st] paths_beforePopup bgFileName_def contentFileName_def)
  moreover have "map_of (manifest st) ''devtools_page''
         = (if includesElem (additionalFeatures opts) ''devtools'' \<and> manifestVersion opts = 2
            then Some (JStr ''devtools.html'') else None)"
    by (simp add: lookup_synthesize [OF st] beforePopup_def lookup_steps)
  ultimately show ?thesis
    using st by blast
qed

theorem devtools_only_under_v2_witness:
  "(\<exists>st. synthesize devtoolsOptions = Inr st
      \<and> ''devtools.html'' \<in> set (paths st)
      \<and> map_of (manifest st) ''devtools_page'' = Some (JStr ''devtools.html''))
   \<and> (\<exists>st. synthesize (devtoolsOptions\<lparr>manifestVersion := 3\<rparr>) = Inr st
      \<and> ''devtools.html'' \<notin> set (paths st)
      \<and> map_of (manifest st) ''devtools_page'' = None)"
proof -
  have f: "filePath devtoolsOptions ''devtools.html'' = ''devtools.html''"
    "filePath (devtoolsOptions\<lparr>manifestVersion := 3\<rparr>) ''devtools.html'' = ''devtools.html''"
    by (simp_all add: filePath_def devtoolsOptions_def sampleOptions_def)
  have s: "includesElem (additionalFeatures devtoolsOptions) ''devtools''"
    "manifestVersion devtoolsOptions = 2"
    by (simp_all add: devtoolsOptions_def sampleOptions_def includesElem_def)
  show ?thesis
    using devtools_only_under_v2 [of devtoolsOptions]
      devtools_only_under_v2 [of "devtoolsOptions\<lparr>manifestVersion := 3\<rparr>"] f s
    by auto
qed

text \<open>
  C7. Every file written before the manifest (the background and content scripts, the HTML
  pages, the popup source) lies in the source subdirectory if and only if
  \<open>useSrcFolder\<close> is set, and directly in the extension directory otherwise. The
  manifest is the last file of the plan, is written once, and always lies directly in the
  extension directory.
\<close>

theorem source_folder_placement:
  "\<exists>st. synthesize opts = Inr st
     \<and> files st \<noteq> []
     \<and> relativePath (last (files st)) = ''manifest.json''
     \<and> atRoot ''manifest.json''
     \<and> (\<forall>p \<in> set (butlast (paths st)).
           p \<noteq> ''manifest.json''
           \<and> (underSrc p \<longleftrightarrow> useSrcFolder opts)
           \<and> (atRoot p \<longleftrightarrow> \<not> useSrcFolder opts))"
proof -
  obtain st where st: "synthesize opts = Inr st"
    using synthesize_total by blast
  have "p \<noteq> ''manifest.json'' \<and> (underSrc p \<longleftrightarrow> useSrcFolder opts)
          \<and> (atRoot p \<longleftrightarrow> \<not> useSrcFolder opts)"
    if "p \<in> set (butlast (paths st))" for p
  proof -
    from feature_paths [OF st] that obtain n where
      n: "n \<in> featureNames" and p: "p = filePath opts n"
      by blast
    from n have slash: "CHR ''/'' \<notin> set n" and nm: "n \<noteq> ''manifest.json''"
      by (auto simp add: featureNames_def)
    from n have "p \<noteq> ''manifest.json''"
      unfolding p by (auto simp add: filePath_def featureNames_def)
    then show ?thesis
      using underSrc_filePath [OF slash] atRoot_filePath [OF slash] p by simp
  qed
  moreover have "atRoot ''manifest.json''"
    by (simp add: atRoot_def)
  ultimately show ?thesis
    using st last_file_synthesize [OF st] by auto
qed

theorem source_folder_placement_witness:
  "useSrcFolder srcFolderOptions
   \<and> (\<exists>st. synthesize srcFolderOptions = Inr st
         \<and> paths st = [''src/background.js'', ''src/popup.js'', ''src/popup.html'', ''manifest.json'']
         \<and> underSrc ''src/background.js'' \<and> underSrc ''src/popup.js'' \<and> underSrc ''src/popup.html''
         \<and> atRoot ''manifest.json'')"
proof -
  have u: "useSrcFolder srcFolderOptions"
    by (simp add: srcFolderOptions_def)
  from source_folder_placement [of srcFolderOptions] obtain st where
    st: "synthesize srcFolderOptions = Inr st" and
    r: "atRoot ''manifest.json''" and
    a: "\<forall>p \<in> set (butlast (paths st)).
           p \<noteq> ''manifest.json''
           \<and> (underSrc p \<longleftrightarrow> useSrcFolder srcFolderOptions)
           \<and> (atRoot p \<longleftrightarrow> \<not> useSrcFolder srcFolderOptions)"
    by blast
  have p: "paths st = [''src/background.js'', ''src/popup.js'', ''src/popup.html'', ''manifest.json'']"
    by (simp add: paths_synthesize [OF st] paths_beforePopup srcFolderOptions_def
        sampleOptions_def includesElem_def filePath_def bgFileName_def)
  from a u have "underSrc ''src/background.js''" "underSrc ''src/popup.js''" "underSrc ''src/popup.html''"
    unfolding p by simp_all
  then show ?thesis
    using u st p r by blast
qed

text \<open>
  C2. For options produced by the normaliser, a version 3 manifest holds no property named
  \<open>devtools_page\<close>, \<open>browser_action\<close> or \<open>scripts\<close>, and a version 2 manifest
  holds none named \<open>service_worker\<close>, \<open>action\<close> or \<open>options_ui\<close>, at any depth
  and for every combination of features.
\<close>

theorem no_cross_version_fields:
  assumes "normalizeOptions r = Inr opts"
  shows "\<exists>st. synthesize opts = Inr st
     \<and> (manifestVersion opts = 3 \<longrightarrow>
          ''devtools_page'' \<notin> allKeys st \<and> ''browser_action'' \<notin> allKeys st
          \<and> ''scripts'' \<notin> allKeys st)
     \<and> (manifestVersion opts = 2 \<longrightarrow>
          ''service_worker'' \<notin> allKeys st \<and> ''action'' \<notin> allKeys st
          \<and> ''options_ui'' \<notin> allKeys st)"
proof -
  obtain st where st: "synthesize opts = Inr st"
    using synthesize_total by blast
  have n3: "''devtools_page'' \<notin> manifestKeysV3" "''browser_action'' \<notin> manifestKeysV3"
    "''scripts'' \<notin> manifestKeysV3"
    by (simp_all add: manifestKeysV3_def)
  have n2: "''service_worker'' \<notin> manifestKeysV2" "''action'' \<notin> manifestKeysV2"
    "''options_ui'' \<notin> manifestKeysV2"
    by (simp_all add: manifestKeysV2_def)
  have "manifestVersion opts = 3 \<longrightarrow>
          ''devtools_page'' \<notin> allKeys st \<and> ''browser_action'' \<notin> allKeys st
          \<and> ''scripts'' \<notin> allKeys st"
    using allKeys_v3 [OF assms st] n3 by blast
  moreover have "manifestVersion opts = 2 \<longrightarrow>
          ''service_worker'' \<notin> allKeys st \<and> ''action'' \<notin> allKeys st
          \<and> ''options_ui'' \<notin> allKeys st"
    using allKeys_v2 [OF assms st] n2 by fastforce
  ultimately show ?thesis
    using st by blast
qed

theorem no_cross_version_fields_witness:
  "normalizeOptions sampleRaw = Inr sampleNormalized
   \<and> manifestVersion sampleNormalized = 3
   \<and> (\<exists>st. synthesize sampleNormalized = Inr st
         \<and> ''devtools_page'' \<notin> allKeys st \<and> ''browser_action'' \<notin> allKeys st
         \<and> ''scripts'' \<notin> allKeys st)
   \<and> normalizeOptions (sampleRaw\<lparr>versionRaw := Some 2\<rparr>) = Inr (sampleNormalized\<lparr>manifestVersion := 2\<rparr>)
   \<and> manifestVersion (sampleNormalized\<lparr>manifestVersion := 2\<rparr>) = 2
   \<and> (\<exists>st. synthesize (sampleNormalized\<lparr>manifestVersion := 2\<rparr>) = Inr st
         \<and> ''service_worker'' \<notin> allKeys st \<and> ''action'' \<notin> allKeys st
         \<and> ''options_ui'' \<notin> allKeys st)"
proof -
  have v3: "manifestVersion sampleNormalized = 3"
    by (simp add: sampleNormalized_def)
  have v2: "manifestVersion (sampleNormalized\<lparr>manifestVersion := 2\<rparr>) = 2"
    by simp
  show ?thesis
    using no_cross_version_fields [OF normalize_sampleRaw]
      no_cross_version_fields [OF normalize_sampleRaw_v2]
      normalize_sampleRaw normalize_sampleRaw_v2 v3 v2
    by auto
qed

text \<open>
  C1, as the code has it. Every file name the manifest refers to has a file in the plan at
  the place \<open>filePath\<close> gives to its source file: under \<open>src/\<close> when
  \<open>useSrcFolder\<close> is set, and with the extension \<open>.ts\<close> instead of \<open>.js\<close> for a
  background or content script written in TypeScript. Without the source folder and with
  both scripts in JavaScript the paths are exactly the names the manifest refers to. Under
  manifest version 3 the manifest does not refer to \<open>devtools.html\<close> and no such file is
  written.
\<close>

theorem referenced_files_authored:
  "\<exists>st. synthesize opts = Inr st
     \<and> (\<forall>f \<in> set (referencedFiles (manifest st)).
           filePath opts (authoredName opts f) \<in> set (paths st))
     \<and> (\<not> useSrcFolder opts \<and> backgroundLang opts \<noteq> ''ts'' \<and> contentLang opts \<noteq> ''ts'' \<longrightarrow>
           (\<forall>f \<in> set (referencedFiles (manifest st)). f \<in> set (paths st)))
     \<and> (manifestVersion opts = 3 \<longrightarrow>
           ''devtools.html'' \<notin> set (referencedFiles (manifest st))
           \<and> filePath opts ''devtools.html'' \<notin> set (paths st))"
proof -
  obtain st where st: "synthesize opts = Inr st"
    using synthesize_total by blast
  note rf = referencedFiles_synthesize [OF st]
  note ps = paths_synthesize [OF st] paths_beforePopup
  have a: "filePath opts (authoredName opts f) \<in> set (paths st)"
    if "f \<in> set (referencedFiles (manifest st))" for f
    using that unfolding rf
    by (auto simp add: ps authoredName_def split: if_splits)
  have b: "f \<in> set (paths st)"
    if "f \<in> set (referencedFiles (manifest st))" and "\<not> useSrcFolder opts"
      and "backgroundLang opts \<noteq> ''ts''" and "contentLang opts \<noteq> ''ts''" for f
    using a [OF that(1)] that(2-4)
    by (auto simp add: authoredName_def filePath_def bgFileName_def contentFileName_def
        split: if_splits)
  have c: "''devtools.html'' \<notin> set (referencedFiles (manifest st))
           \<and> filePath opts ''devtools.html'' \<notin> set (paths st)"
    if "manifestVersion opts = 3"
  proof -
    have "filePath opts ''devtools.html'' \<noteq> ''manifest.json''"
      by (simp add: filePath_def)
    then show ?thesis
      using that by (simp add: rf ps bgFileName_def contentFileName_def)
  qed
  show ?thesis
    using st a b c by blast
qed

theorem referenced_files_authored_witness:
  "\<not> useSrcFolder reactPopupOptions \<and> backgroundLang reactPopupOptions \<noteq> ''ts''
   \<and> contentLang reactPopupOptions \<noteq> ''ts'' \<and> manifestVersion reactPopupOptions = 3
   \<and> (\<exists>st. synthesize reactPopupOptions = Inr st
         \<and> ''popup.html'' \<in> set (referencedFiles (manifest st))
         \<and> filePath reactPopupOptions (authoredName reactPopupOptions ''popup.html'') \<in> set (paths st)
         \<and> ''popup.html'' \<in> set (paths st)
         \<and> paths st = [''popup.tsx'', ''popup.html'', ''manifest.json'']
         \<and> ''devtools.html'' \<notin> set (referencedFiles (manifest st))
         \<and> filePath reactPopupOptions ''devtools.html'' \<notin> set (paths st))"
proof -
  have h: "\<not> useSrcFolder reactPopupOptions" "backgroundLang reactPopupOptions \<noteq> ''ts''"
    "contentLang reactPopupOptions \<noteq> ''ts''" "manifestVersion reactPopupOptions = 3"
    by (simp_all add: reactPopupOptions_def sampleOptions_def)
  from referenced_files_authored [of reactPopupOptions] h obtain st where
    st: "synthesize reactPopupOptions = Inr st" and
    a: "\<forall>f \<in> set (referencedFiles (manifest st)).
           filePath reactPopupOptions (authoredName reactPopupOptions f) \<in> set (paths st)" and
    b: "\<forall>f \<in> set (referencedFiles (manifest st)). f \<in> set (paths st)" and
    c: "''devtools.html'' \<notin> set (referencedFiles (manifest st))"
       "filePath reactPopupOptions ''devtools.html'' \<notin> set (paths st)"
    by blast
  have r: "''popup.html'' \<in> set (referencedFiles (manifest st))"
    by (simp add: referencedFiles_synthesize [OF st] reactPopupOptions_def sampleOptions_def
        includesElem_def)
  have p: "paths st = [''popup.tsx'', ''popup.html'', ''manifest.json'']"
    by (simp add: paths_synthesize [OF st] paths_beforePopup reactPopupOptions_def
        sampleOptions_def includesElem_def filePath_def)
  show ?thesis
    using h st a b c r p by blast
qed

text \<open>
  C1 as stated fails: with a TypeScript background script and no source folder the manifest
  refers to \<open>background.js\<close>, and the only files written are \<open>background.ts\<close> and
  \<open>manifest.json\<close>.
\<close>

theorem exact_reference_counterexample:
  "isl (synthesize tsBackgroundOptions) = False
   \<and> ''background.js'' \<in> set (referencedFiles (manifest (projr (synthesize tsBackgroundOptions))))
   \<and> ''background.js'' \<notin> set (paths (projr (synthesize tsBackgroundOptions)))
   \<and> paths (projr (synthesize tsBackgroundOptions)) = [''background.ts'', ''manifest.json'']"
proof -
  obtain st where st: "synthesize tsBackgroundOptions = Inr st"
    using synthesize_total by blast
  have "referencedFiles (manifest st) = [''background.js'']"
    by (simp add: referencedFiles_synthesize [OF st] tsBackgroundOptions_def sampleOptions_def
        includesElem_def)
  moreover have "paths st = [''background.ts'', ''manifest.json'']"
    by (simp add: paths_synthesize [OF st] paths_beforePopup tsBackgroundOptions_def
        sampleOptions_def includesElem_def filePath_def bgFileName_def)
  ultimately show ?thesis
    by (simp add: st)
qed

text \<open>
  C3, as the code has it. The normaliser trims \<open>name\<close> and \<open>description\<close>. It fails
  with \<open>MissingField\<close>, and the program writes nothing, whenever the name or the
  description is absent (the prompt did not return a string). When it succeeds, both
  answers were strings and the options hold them trimmed.
\<close>

theorem absent_text_fails:
  "(extNameRaw r = None \<or> extDescRaw r = None \<longrightarrow>
      (\<exists>msg. normalizeOptions r = Inl (MissingField msg)
         \<and> main e r = \<lparr>exitStatus = Failed (MissingField msg), createdDirs = [], written = []\<rparr>))
   \<and> (normalizeOptions r = Inr opts \<longrightarrow>
        extNameRaw r \<noteq> None \<and> extDescRaw r \<noteq> None
        \<and> extensionName opts = trim (the (extNameRaw r))
        \<and> extensionDescription opts = trim (the (extDescRaw r)))"
proof -
  have "\<exists>msg. normalizeOptions r = Inl (MissingField msg)"
    if "extNameRaw r = None \<or> extDescRaw r = None"
    using that by (auto simp add: normalizeOptions_def split: option.splits)
  then show ?thesis
    using main_normalize_fails [of r _ e] normalize_text_fields [of r opts] by blast
qed

theorem absent_text_fails_witness:
  "extNameRaw (sampleRaw\<lparr>extNameRaw := None\<rparr>) = None
   \<and> (\<exists>msg. normalizeOptions (sampleRaw\<lparr>extNameRaw := None\<rparr>) = Inl (MissingField msg)
         \<and> main freshEnv (sampleRaw\<lparr>extNameRaw := None\<rparr>)
             = \<lparr>exitStatus = Failed (MissingField msg), createdDirs = [], written = []\<rparr>)
   \<and> normalizeOptions sampleRaw = Inr sampleNormalized
   \<and> extensionName sampleNormalized = trim (the (extNameRaw sampleRaw))
   \<and> extensionDescription sampleNormalized = trim (the (extDescRaw sampleRaw))"
proof -
  have "extNameRaw (sampleRaw\<lparr>extNameRaw := None\<rparr>) = None"
    by simp
  then show ?thesis
    using absent_text_fails [of "sampleRaw\<lparr>extNameRaw := None\<rparr>" freshEnv sampleNormalized]
      absent_text_fails [of sampleRaw freshEnv sampleNormalized] normalize_sampleRaw
    by blast
qed

text \<open>
  C3 as stated fails: a description of three blanks is empty after trimming, yet the
  normaliser accepts it and the program completes and writes the project.
\<close>

theorem blank_text_counterexample:
  "trim (the (extDescRaw blankDescriptionRaw)) = []
   \<and> normalizeOptions blankDescriptionRaw = Inr (sampleNormalized\<lparr>extensionDescription := []\<rparr>)
   \<and> exitStatus (main freshEnv blankDescriptionRaw) = Completed
   \<and> map relativePath (written (main freshEnv blankDescriptionRaw))
       = [''background.js'', ''options.html'', ''popup.ts'', ''popup.html'', ''manifest.json'',
          ''package.json'', ''TODO.md'']"
proof -
  have t: "trim (the (extDescRaw blankDescriptionRaw)) = []"
    by (simp add: blankDescriptionRaw_def trim_def isSpace_def)
  have n: "normalizeOptions blankDescriptionRaw = Inr (sampleNormalized\<lparr>extensionDescription := []\<rparr>)"
    by (simp add: blankDescriptionRaw_def normalizeOptions_def sampleRaw_def sampleNormalized_def
        readIcons_def addIcon_def readLang_def readBuildOptions_def trim_Demo Let_def trim_def
        isSpace_def)
  obtain st where st: "synthesize (sampleNormalized\<lparr>extensionDescription := []\<rparr>) = Inr st"
    using synthesize_total by blast
  have p: "paths st = [''background.js'', ''options.html'', ''popup.ts'', ''popup.html'', ''manifest.json'']"
    by (simp add: paths_synthesize [OF st] paths_beforePopup sampleNormalized_def
        includesElem_def filePath_def bgFileName_def)
  have c: "confirmed (proceedRaw blankDescriptionRaw)"
    "nodeAt freshEnv (joinCwd (extensionName (sampleNormalized\<lparr>extensionDescription := []\<rparr>))) = Missing"
    "nodeAt freshEnv (fst (joinCwd (extensionName (sampleNormalized\<lparr>extensionDescription := []\<rparr>))),
       butlast (snd (joinCwd (extensionName (sampleNormalized\<lparr>extensionDescription := []\<rparr>))))) = Dir"
    by (simp_all add: blankDescriptionRaw_def sampleRaw_def sampleNormalized_def freshEnv_def
        joinCwd_Demo nodeAt_def)
  have r: "resolvePackage (sampleNormalized\<lparr>extensionDescription := []\<rparr>)
        (readPackageFile freshEnv (files st))
      = Inr (Some (JObj [(''name'', JStr ''demo''), (''version'', JStr ''1.0.0''),
                      (''scripts'', JObj [(''build'', JStr ''tsc'')]),
                      (''devDependencies'', JObj []), (''dependencies'', JObj [])]))"
    by (simp add: package_file_never_found [OF st] resolve_sampleNormalized)
  show ?thesis
    using t n main_completed [OF n c st r] p by simp
qed




text \<open>
  C4. When the raw build options contain \<open>none\<close>, whatever else they contain, the
  normalised build options are empty; and whenever the build options are empty no package
  descriptor is produced and the program writes no \<open>package.json\<close>.
\<close>

theorem none_sentinel_wins:
  assumes "normalizeOptions r = Inr opts"
  shows "(''none'' \<in> set (arrayOrEmpty (buildOptionsRaw r)) \<longrightarrow> buildOptions opts = [])
     \<and> (buildOptions opts = [] \<longrightarrow>
          resolvePackage opts existing = Inr None
          \<and> ''package.json'' \<notin> set (map relativePath (written (main e r))))"
proof -
  have a: "buildOptions opts = []" if "''none'' \<in> set (arrayOrEmpty (buildOptionsRaw r))"
    using that normalize_text_fields(5) [OF assms] by (simp add: readBuildOptions_def)
  have b: "resolvePackage opts pf = Inr None" if "buildOptions opts = []" for pf
    using that by (simp add: resolvePackage_def)
  have c: "''package.json'' \<notin> set (map relativePath (written (main e r)))"
    if none: "buildOptions opts = []"
  proof -
    obtain st where st: "synthesize opts = Inr st"
      using synthesize_total by blast
    have "set (map relativePath (written (main e r))) \<subseteq> set (paths st) \<union> {''TODO.md''}"
      using assms st b [OF none, of "readPackageFile e (files st)"]
      by (auto simp add: main_def paths_def Let_def)
    then show ?thesis
      using no_package_json_in_plan [OF st] by auto
  qed
  show ?thesis
    using a b c by blast
qed

theorem none_sentinel_wins_witness:
  "normalizeOptions noneSentinelRaw = Inr (sampleNormalized\<lparr>buildOptions := []\<rparr>)
   \<and> ''none'' \<in> set (arrayOrEmpty (buildOptionsRaw noneSentinelRaw))
   \<and> buildOptions (sampleNormalized\<lparr>buildOptions := []\<rparr>) = []
   \<and> resolvePackage (sampleNormalized\<lparr>buildOptions := []\<rparr>) NoFile = Inr None
   \<and> ''package.json'' \<notin> set (map relativePath (written (main freshEnv noneSentinelRaw)))"
proof -
  have n: "normalizeOptions noneSentinelRaw = Inr (sampleNormalized\<lparr>buildOptions := []\<rparr>)"
    by (simp add: noneSentinelRaw_def normalizeOptions_def sampleRaw_def sampleNormalized_def
        readIcons_def addIcon_def readLang_def readBuildOptions_def trim_Demo Let_def)
  have h: "''none'' \<in> set (arrayOrEmpty (buildOptionsRaw noneSentinelRaw))"
    by (simp add: noneSentinelRaw_def)
  show ?thesis
    using none_sentinel_wins [OF n, of NoFile freshEnv] n h by simp
qed

end
